theory Spec2Isabelle
  imports Complex_Main
begin

section \<open>Debt payoff estimator (tools/pf\_calcs.py)\<close>

text \<open>
  Python floats are IEEE 754 binary64 numbers, and \<^verbatim>\<open>_estimate_debt_payoff\<close> is embedded
  twice. \<open>estimate_debt_payoff_f64\<close> follows the source operation by operation on the
  type \<open>double\<close>: every arithmetic result is rounded to the nearest binary64 number,
  ties to even, with overflow to infinity, and with NaN. It is the embedding for
  what depends on rounding: which branch is taken, whether the balance moves, the
  month count. \<open>estimate_debt_payoff\<close> reads the same source over the real numbers,
  without rounding; the relations between the fields of a result and the aggregate
  metrics are stated over it. The coercions \<^verbatim>\<open>float(x or 0.0)\<close> at the head of
  the function are the identity on floats and are not written out.
\<close>

datatype status = paid_off | no_payment | non_amortizing | too_long

text \<open>The \<^verbatim>\<open>reason\<close> strings of the source, one constructor per message; the
  last message interpolates \<^verbatim>\<open>max_months\<close>.\<close>

datatype reason =
    No_monthly_payment_entered
  | Payment_le_monthly_interest
  | Payment_doesnt_reduce_principal
  | Not_paid_off_within int

subsection \<open>Binary64 arithmetic\<close>

text \<open>
  A float is a finite number, an infinity or NaN. A finite result of an operation is
  always a binary64 number; \<open>finite_double\<close> below says so of an input. The sign of
  zero is not kept: no comparison and no result of the source depends on it.
\<close>

datatype double = Finite real | PInf | NInf | NaN

text \<open>The greatest power of two below a positive number: \<open>pow2_ge1\<close> from 1
  upwards, \<open>pow2_lt1\<close> below 1.\<close>

function pow2_ge1 :: "real \<Rightarrow> real" where
  "pow2_ge1 x = (if 2 \<le> x then 2 * pow2_ge1 (x / 2) else 1)"
  by pat_completeness auto
termination
proof (relation "measure (\<lambda>x. nat \<lfloor>x\<rfloor>)")
  show "wf (measure (\<lambda>x::real. nat \<lfloor>x\<rfloor>))" by simp
next
  fix x :: real
  assume "2 \<le> x"
  then have "\<lfloor>x / 2\<rfloor> < \<lfloor>x\<rfloor>" by linarith
  moreover from \<open>2 \<le> x\<close> have "0 < \<lfloor>x\<rfloor>" by linarith
  ultimately show "(x / 2, x) \<in> measure (\<lambda>x. nat \<lfloor>x\<rfloor>)" by simp
qed

function pow2_lt1 :: "real \<Rightarrow> real" where
  "pow2_lt1 x = (if 0 < x \<and> x < 1 then pow2_lt1 (2 * x) / 2 else 1)"
  by pat_completeness auto
termination
proof (relation "measure (\<lambda>x. nat \<lceil>1 / x\<rceil>)")
  show "wf (measure (\<lambda>x::real. nat \<lceil>1 / x\<rceil>))" by simp
next
  fix x :: real
  assume a: "0 < x \<and> x < 1"
  define y where "y = 1 / x"
  from a have y: "1 < y" by (simp add: y_def)
  have lt: "\<lceil>y / 2\<rceil> < \<lceil>y\<rceil>"
  proof (cases "y \<le> 2")
    case True
    then have "\<lceil>y / 2\<rceil> \<le> 1" by (simp add: ceiling_le_iff)
    moreover from y have "1 < \<lceil>y\<rceil>" by (simp add: less_ceiling_iff)
    ultimately show ?thesis by linarith
  next
    case False
    have "of_int \<lceil>y / 2\<rceil> < y / 2 + 1" by linarith
    moreover have "y \<le> of_int \<lceil>y\<rceil>" by linarith
    ultimately have "(of_int \<lceil>y / 2\<rceil> :: real) < of_int \<lceil>y\<rceil>" using False by linarith
    then show ?thesis by simp
  qed
  from y have pos: "0 < \<lceil>y\<rceil>" by linarith
  have h: "1 / (2 * x) = y / 2" by (simp add: y_def)
  from lt pos have "nat \<lceil>1 / (2 * x)\<rceil> < nat \<lceil>y\<rceil>" unfolding h by linarith
  then show "(2 * x, x) \<in> measure (\<lambda>x. nat \<lceil>1 / x\<rceil>)" unfolding y_def by simp
qed

definition pow2_floor :: "real \<Rightarrow> real" where
  "pow2_floor x = (if 1 \<le> x then pow2_ge1 x else pow2_lt1 x)"

text \<open>The spacing of the binary64 numbers around \<open>x \<ge> 0\<close>: 53 significant bits,
  and the fixed spacing \<open>2^-1074\<close> of the subnormal numbers below \<open>2^-1022\<close>.\<close>

definition ulp :: "real \<Rightarrow> real" where
  "ulp x = (if x < 1 / 2 ^ 1022 then 1 / 2 ^ 1074 else pow2_floor x / 2 ^ 52)"

text \<open>Rounding to the nearest integer, a tie to the even one.\<close>

definition round_half_even :: "real \<Rightarrow> int" where
  "round_half_even q =
     (let f = \<lfloor>q\<rfloor>; d = q - of_int f
      in if d < 1 / 2 then f else if 1 / 2 < d then f + 1 else if even f then f else f + 1)"

text \<open>Rounding a magnitude to the nearest multiple of the spacing, and a real number
  to binary64: a magnitude that rounds to \<open>2^1024\<close> or more overflows to infinity.\<close>

definition round_mag :: "real \<Rightarrow> real" where
  "round_mag x = of_int (round_half_even (x / ulp x)) * ulp x"

definition round64 :: "real \<Rightarrow> double" where
  "round64 x =
     (if 0 \<le> x then (if 2 ^ 1024 \<le> round_mag x then PInf else Finite (round_mag x))
      else (if 2 ^ 1024 \<le> round_mag (- x) then NInf else Finite (- round_mag (- x))))"

text \<open>
  The operations of Python on floats: the exact result, rounded, and the IEEE rules
  for infinities and NaN. Python raises \<^verbatim>\<open>ZeroDivisionError\<close> on a zero divisor; the
  divisors of \<^verbatim>\<open>_estimate_debt_payoff\<close> are the literals \<^verbatim>\<open>100.0\<close> and \<^verbatim>\<open>12.0\<close> and a
  payment that has passed \<^verbatim>\<open>payment <= 0\<close>, so that case is never reached, and \<open>fdiv\<close>
  is NaN there.
\<close>

fun fneg :: "double \<Rightarrow> double" where
  "fneg (Finite x) = Finite (- x)"
| "fneg PInf = NInf"
| "fneg NInf = PInf"
| "fneg NaN = NaN"

fun fadd :: "double \<Rightarrow> double \<Rightarrow> double" where
  "fadd (Finite x) (Finite y) = round64 (x + y)"
| "fadd NaN _ = NaN"
| "fadd _ NaN = NaN"
| "fadd PInf NInf = NaN"
| "fadd NInf PInf = NaN"
| "fadd PInf _ = PInf"
| "fadd _ PInf = PInf"
| "fadd NInf _ = NInf"
| "fadd _ NInf = NInf"

definition fsub :: "double \<Rightarrow> double \<Rightarrow> double" where
  "fsub a b = fadd a (fneg b)"

fun fmul :: "double \<Rightarrow> double \<Rightarrow> double" where
  "fmul (Finite x) (Finite y) = round64 (x * y)"
| "fmul NaN _ = NaN"
| "fmul _ NaN = NaN"
| "fmul (Finite x) PInf = (if x = 0 then NaN else if 0 < x then PInf else NInf)"
| "fmul (Finite x) NInf = (if x = 0 then NaN else if 0 < x then NInf else PInf)"
| "fmul PInf (Finite y) = (if y = 0 then NaN else if 0 < y then PInf else NInf)"
| "fmul NInf (Finite y) = (if y = 0 then NaN else if 0 < y then NInf else PInf)"
| "fmul PInf PInf = PInf"
| "fmul PInf NInf = NInf"
| "fmul NInf PInf = NInf"
| "fmul NInf NInf = PInf"

fun fdiv :: "double \<Rightarrow> double \<Rightarrow> double" where
  "fdiv (Finite x) (Finite y) = (if y = 0 then NaN else round64 (x / y))"
| "fdiv NaN _ = NaN"
| "fdiv _ NaN = NaN"
| "fdiv (Finite x) PInf = Finite 0"
| "fdiv (Finite x) NInf = Finite 0"
| "fdiv PInf (Finite y) = (if y = 0 then NaN else if 0 < y then PInf else NInf)"
| "fdiv NInf (Finite y) = (if y = 0 then NaN else if 0 < y then NInf else PInf)"
| "fdiv PInf PInf = NaN"
| "fdiv PInf NInf = NaN"
| "fdiv NInf PInf = NaN"
| "fdiv NInf NInf = NaN"

text \<open>The comparisons \<^verbatim>\<open><=\<close> and \<^verbatim>\<open><\<close>: false whenever an operand is NaN.\<close>

fun fle :: "double \<Rightarrow> double \<Rightarrow> bool" where
  "fle (Finite x) (Finite y) = (x \<le> y)"
| "fle NaN _ = False"
| "fle _ NaN = False"
| "fle NInf _ = True"
| "fle _ PInf = True"
| "fle PInf _ = False"
| "fle _ NInf = False"

fun flt :: "double \<Rightarrow> double \<Rightarrow> bool" where
  "flt (Finite x) (Finite y) = (x < y)"
| "flt NaN _ = False"
| "flt _ NaN = False"
| "flt PInf _ = False"
| "flt _ NInf = False"
| "flt NInf _ = True"
| "flt _ PInf = True"

text \<open>\<^verbatim>\<open>max(a, b)\<close> of two arguments returns \<open>b\<close> when \<^verbatim>\<open>b > a\<close> and \<open>a\<close> otherwise.\<close>

definition pymax :: "double \<Rightarrow> double \<Rightarrow> double" where
  "pymax a b = (if flt a b then b else a)"

text \<open>\<^verbatim>\<open>int(math.ceil(x))\<close> raises \<^verbatim>\<open>OverflowError\<close> on an infinity and
  \<^verbatim>\<open>ValueError\<close> on NaN.\<close>

datatype py_error = OverflowError | ValueError

fun pyceil :: "double \<Rightarrow> py_error + int" where
  "pyceil (Finite x) = Inr \<lceil>x\<rceil>"
| "pyceil PInf = Inl OverflowError"
| "pyceil NInf = Inl OverflowError"
| "pyceil NaN = Inl ValueError"


subsection \<open>The amortization loop\<close>

text \<open>
  The \<^verbatim>\<open>while b > 0 and months < max_months\<close> loop. The state is
  \<open>(b, total_interest, months)\<close>; the early \<^verbatim>\<open>return\<close> inside the loop
  (\<^verbatim>\<open>principal <= 0\<close>) is \<open>Inl interest\<close>, the normal exit is \<open>Inr\<close> of the
  final state. (Where a record field of the same name is in scope, the loop's
  \<^verbatim>\<open>total_interest\<close> and \<^verbatim>\<open>months\<close> are written \<open>interest_sum\<close> and \<open>n\<close>.)
  First over the reals, then over binary64.
\<close>

function amortize :: "real \<Rightarrow> real \<Rightarrow> int \<Rightarrow> real \<times> real \<times> int \<Rightarrow> real + real \<times> real \<times> int" where
  "amortize monthly_rate payment max_months (b, total_interest, months) =
     (if b > 0 \<and> months < max_months then
        (let interest = b * monthly_rate;
             principal = payment - interest
         in if principal \<le> 0 then Inl interest
            else amortize monthly_rate payment max_months
                   (b - principal, total_interest + interest, months + 1))
      else Inr (b, total_interest, months))"
  by pat_completeness auto
termination
  by (relation "measure (\<lambda>(r, p, mm, b, ti, m). nat (mm - m))") auto

function amortize_f64 ::
  "double \<Rightarrow> double \<Rightarrow> int \<Rightarrow> double \<times> double \<times> int \<Rightarrow> double + double \<times> double \<times> int" where
  "amortize_f64 monthly_rate payment max_months (b, total_interest, months) =
     (if flt (Finite 0) b \<and> months < max_months then
        (let interest = fmul b monthly_rate;
             principal = fsub payment interest
         in if fle principal (Finite 0) then Inl interest
            else amortize_f64 monthly_rate payment max_months
                   (fsub b principal, fadd total_interest interest, months + 1))
      else Inr (b, total_interest, months))"
  by pat_completeness auto
termination
  by (relation "measure (\<lambda>(r, p, mm, b, ti, m). nat (mm - m))") auto

text \<open>
  The binary64 loop with a ghost variable: the list of the values \<open>b\<close> has at each
  evaluation of the loop condition, the initial balance first. An early
  \<^verbatim>\<open>return\<close> ends the list at the balance of that iteration.
\<close>

function amortize_trace_f64 ::
  "double \<Rightarrow> double \<Rightarrow> int \<Rightarrow> double \<times> double \<times> int \<Rightarrow> double list" where
  "amortize_trace_f64 monthly_rate payment max_months (b, total_interest, months) =
     b # (if flt (Finite 0) b \<and> months < max_months then
            (let interest = fmul b monthly_rate;
                 principal = fsub payment interest
             in if fle principal (Finite 0) then []
                else amortize_trace_f64 monthly_rate payment max_months
                       (fsub b principal, fadd total_interest interest, months + 1))
          else [])"
  by pat_completeness auto
termination
  by (relation "measure (\<lambda>(r, p, mm, b, ti, m). nat (mm - m))") auto

subsection \<open>The estimate\<close>

text \<open>The result dictionary; \<open>'a\<close> is the type of the amounts.\<close>

record 'a payoff_estimate =
  status :: status
  months :: "int option"
  total_interest :: "'a option"
  monthly_interest :: 'a
  min_payment_to_amortize :: 'a
  reason :: "reason option"

text \<open>Over the reals.\<close>

definition estimate_debt_payoff :: "real \<Rightarrow> real \<Rightarrow> real \<Rightarrow> int \<Rightarrow> real payoff_estimate" where
  "estimate_debt_payoff balance apr_pct payment max_months =
     (if balance \<le> 0 then
        \<lparr>status = paid_off, months = Some 0, total_interest = Some 0,
         monthly_interest = 0, min_payment_to_amortize = 0, reason = None\<rparr>
      else
        let monthly_rate = max apr_pct 0 / 100 / 12;
            monthly_interest = (if monthly_rate > 0 then balance * monthly_rate else 0)
        in
        if payment \<le> 0 then
          \<lparr>status = no_payment, months = None, total_interest = None,
           monthly_interest = monthly_interest,
           min_payment_to_amortize = (if monthly_rate > 0 then monthly_interest + 1 else 0),
           reason = Some No_monthly_payment_entered\<rparr>
        else if monthly_rate \<le> 0 then
          \<lparr>status = paid_off, months = Some \<lceil>balance / payment\<rceil>, total_interest = Some 0,
           monthly_interest = 0, min_payment_to_amortize = 0, reason = None\<rparr>
        else if payment \<le> monthly_interest then
          \<lparr>status = non_amortizing, months = None, total_interest = None,
           monthly_interest = monthly_interest,
           min_payment_to_amortize = monthly_interest + 1,
           reason = Some Payment_le_monthly_interest\<rparr>
        else
          (case amortize monthly_rate payment max_months (balance, 0, 0) of
             Inl interest \<Rightarrow>
               \<lparr>status = non_amortizing, months = None, total_interest = None,
                monthly_interest = interest,
                min_payment_to_amortize = interest + 1,
                reason = Some Payment_doesnt_reduce_principal\<rparr>
           | Inr (b, interest_sum, n) \<Rightarrow>
               if b > 0 then
                 \<lparr>status = too_long, months = None, total_interest = Some interest_sum,
                  monthly_interest = monthly_interest,
                  min_payment_to_amortize = monthly_interest + 1,
                  reason = Some (Not_paid_off_within max_months)\<rparr>
               else
                 \<lparr>status = paid_off, months = Some n, total_interest = Some interest_sum,
                  monthly_interest = monthly_interest,
                  min_payment_to_amortize = monthly_interest + 1,
                  reason = None\<rparr>))"

text \<open>Over binary64, with the two exceptions \<^verbatim>\<open>math.ceil\<close> can raise as \<open>Inl\<close>.\<close>

definition estimate_debt_payoff_f64 ::
  "double \<Rightarrow> double \<Rightarrow> double \<Rightarrow> int \<Rightarrow> py_error + double payoff_estimate" where
  "estimate_debt_payoff_f64 balance apr_pct payment max_months =
     (if fle balance (Finite 0) then
        Inr \<lparr>status = paid_off, months = Some 0, total_interest = Some (Finite 0),
             monthly_interest = Finite 0, min_payment_to_amortize = Finite 0, reason = None\<rparr>
      else
        let monthly_rate = fdiv (fdiv (pymax apr_pct (Finite 0)) (Finite 100)) (Finite 12);
            monthly_interest =
              (if flt (Finite 0) monthly_rate then fmul balance monthly_rate else Finite 0)
        in
        if fle payment (Finite 0) then
          Inr \<lparr>status = no_payment, months = None, total_interest = None,
               monthly_interest = monthly_interest,
               min_payment_to_amortize =
                 (if flt (Finite 0) monthly_rate then fadd monthly_interest (Finite 1)
                  else Finite 0),
               reason = Some No_monthly_payment_entered\<rparr>
        else if fle monthly_rate (Finite 0) then
          (case pyceil (fdiv balance payment) of
             Inl e \<Rightarrow> Inl e
           | Inr k \<Rightarrow>
               Inr \<lparr>status = paid_off, months = Some k, total_interest = Some (Finite 0),
                    monthly_interest = Finite 0, min_payment_to_amortize = Finite 0,
                    reason = None\<rparr>)
        else if fle payment monthly_interest then
          Inr \<lparr>status = non_amortizing, months = None, total_interest = None,
               monthly_interest = monthly_interest,
               min_payment_to_amortize = fadd monthly_interest (Finite 1),
               reason = Some Payment_le_monthly_interest\<rparr>
        else
          (case amortize_f64 monthly_rate payment max_months (balance, Finite 0, 0) of
             Inl interest \<Rightarrow>
               Inr \<lparr>status = non_amortizing, months = None, total_interest = None,
                    monthly_interest = interest,
                    min_payment_to_amortize = fadd interest (Finite 1),
                    reason = Some Payment_doesnt_reduce_principal\<rparr>
           | Inr (b, interest_sum, n) \<Rightarrow>
               if flt (Finite 0) b then
                 Inr \<lparr>status = too_long, months = None, total_interest = Some interest_sum,
                      monthly_interest = monthly_interest,
                      min_payment_to_amortize = fadd monthly_interest (Finite 1),
                      reason = Some (Not_paid_off_within max_months)\<rparr>
               else
                 Inr \<lparr>status = paid_off, months = Some n, total_interest = Some interest_sum,
                      monthly_interest = monthly_interest,
                      min_payment_to_amortize = fadd monthly_interest (Finite 1),
                      reason = None\<rparr>))"

section \<open>Aggregate metrics (tools/pf\_calcs.py, \<^verbatim>\<open>compute_metrics\<close>)\<close>

text \<open>
  The data frames of the session state are lists of typed rows holding the columns
  that \<^verbatim>\<open>compute_metrics\<close> reads: the label column and the numeric columns, the
  latter already numbers (the editor's sanitation step stores them as floats).
  \<open>money_row\<close> is a row of the income, expense, saving and investing tables
  (column \<^verbatim>\<open>Monthly Amount\<close>), \<open>value_row\<close> a row of the asset and liability tables
  (column \<^verbatim>\<open>Value\<close>), \<open>debt_row\<close> a row of the debt table (columns \<^verbatim>\<open>Debt\<close>,
  \<^verbatim>\<open>Balance\<close>, \<^verbatim>\<open>APR %\<close>, \<^verbatim>\<open>Monthly Payment\<close>). The amounts are real
  numbers and the arithmetic of \<^verbatim>\<open>compute_metrics\<close> is exact.
\<close>

record money_row =
  Name :: string
  Monthly_Amount :: real

record value_row =
  Item :: string
  Value :: real

record debt_row =
  Debt :: string
  Balance :: real
  APR :: real
  Monthly_Payment :: real

text \<open>
  Modelled from the spec: \<^verbatim>\<open>sum_df\<close> is imported from \<^verbatim>\<open>tools/pf_state.py\<close>, which is
  not among the sources. The spec (4.1) gives it as the sum of a numeric field across
  the rows, \<open>0.0\<close> for an empty collection; \<^verbatim>\<open>_sum_df\<close> of
  \<^verbatim>\<open>tools/finance_dashboard.py\<close> computes the same on numeric columns. The column is
  passed as the field selector.
\<close>

definition sum_df :: "'a list \<Rightarrow> ('a \<Rightarrow> real) \<Rightarrow> real" where
  "sum_df df col = sum_list (map col df)"

text \<open>The keys of \<^verbatim>\<open>st.session_state\<close> that \<^verbatim>\<open>compute_metrics\<close> reads. The data
  frames are read with \<^verbatim>\<open>[]\<close> and are always present; the scalars are read with
  \<^verbatim>\<open>.get(key, default)\<close> and may be absent (\<open>None\<close>).\<close>

record session_state =
  pf_income_df :: "money_row list"
  pf_fixed_df :: "money_row list"
  pf_essential_df :: "money_row list"
  pf_nonessential_df :: "money_row list"
  pf_saving_df :: "money_row list"
  pf_investing_df :: "money_row list"
  pf_debt_df :: "debt_row list"
  pf_assets_df :: "value_row list"
  pf_liabilities_df :: "value_row list"
  pf_manual_taxes :: "real option"
  pf_manual_retirement :: "real option"
  pf_manual_benefits :: "real option"
  pf_manual_other_ssi :: "real option"
  pf_manual_match :: "real option"
  pf_use_paycheck_breakdown :: "bool option"

text \<open>\<^verbatim>\<open>float(st.session_state.get(key, 0.0) or 0.0)\<close> and
  \<^verbatim>\<open>bool(st.session_state.get(key, False))\<close>.\<close>

definition get_float :: "real option \<Rightarrow> real" where
  "get_float v = (case v of None \<Rightarrow> 0 | Some x \<Rightarrow> x)"

definition get_bool :: "bool option \<Rightarrow> bool" where
  "get_bool v = (case v of None \<Rightarrow> False | Some x \<Rightarrow> x)"

text \<open>\<^verbatim>\<open>str.strip()\<close> on the ASCII white space of Python
  (\<open>0x09\<close>--\<open>0x0D\<close>, \<open>0x1C\<close>--\<open>0x20\<close>).\<close>

definition is_space :: "char \<Rightarrow> bool" where
  "is_space c = ((of_char c :: nat) \<in> {9, 10, 11, 12, 13, 28, 29, 30, 31, 32})"

definition strip :: "string \<Rightarrow> string" where
  "strip s = rev (dropWhile is_space (rev (dropWhile is_space s)))"

text \<open>
  A payoff date is today's month plus a number of months, formatted for display; the
  model keeps the offset (the clock and the formatting are outside the model), or
  the literal \<^verbatim>\<open>"Now"\<close>.
\<close>

datatype payoff_date = Now | Today_plus_months int

text \<open>An entry of \<^verbatim>\<open>payoff_rows\<close>: the fields of the estimate and those of the row.\<close>

record payoff_row = "real payoff_estimate" +
  Debt_name :: string
  balance :: real
  apr_pct :: real
  payment :: real
  years :: "real option"
  payoff_date :: "payoff_date option"

text \<open>The loop \<^verbatim>\<open>for _, row in debt_df.iterrows(): num += bal * apr\<close>.\<close>

fun weighted_num :: "debt_row list \<Rightarrow> real \<Rightarrow> real" where
  "weighted_num [] num = num"
| "weighted_num (row # rest) num =
     (let bal = Balance row; apr = APR row
      in weighted_num rest (num + bal * apr))"

text \<open>The loop that builds \<^verbatim>\<open>payoff_rows\<close> and \<^verbatim>\<open>has_non_amortizing\<close>; a row with
  \<^verbatim>\<open>bal <= 0\<close> is skipped (\<^verbatim>\<open>continue\<close>).\<close>

fun payoff_loop :: "debt_row list \<Rightarrow> payoff_row list \<times> bool \<Rightarrow> payoff_row list \<times> bool" where
  "payoff_loop [] (payoff_rows, has_non_amortizing) = (payoff_rows, has_non_amortizing)"
| "payoff_loop (row # rest) (payoff_rows, has_non_amortizing) =
     (let name = (if strip (Debt row) = [] then ''Debt'' else strip (Debt row));
          bal = Balance row;
          apr = APR row;
          pay = Monthly_Payment row;
          est = estimate_debt_payoff bal apr pay 600
      in if bal \<le> 0 then payoff_loop rest (payoff_rows, has_non_amortizing)
         else
           let st = status est;
               has_non_amortizing' =
                 (if st \<in> {non_amortizing, no_payment, too_long} then True
                  else has_non_amortizing);
               mo = months est;
               date = (case mo of
                         None \<Rightarrow> None
                       | Some k \<Rightarrow> if k > 0 then Some (Today_plus_months k)
                                   else if k = 0 then Some Now else None)
           in payoff_loop rest
                (payoff_rows @
                   [\<lparr>status = st, months = mo, total_interest = total_interest est,
                     monthly_interest = monthly_interest est,
                     min_payment_to_amortize = min_payment_to_amortize est,
                     reason = reason est,
                     Debt_name = name, balance = bal, apr_pct = apr, payment = pay,
                     years = (case mo of None \<Rightarrow> None | Some k \<Rightarrow> Some (real_of_int k / 12)),
                     payoff_date = date\<rparr>],
                 has_non_amortizing'))"

text \<open>The result dictionary, without the data frames it passes through unchanged
  and without \<^verbatim>\<open>variable_for_visuals\<close> (a concatenation for the charts).\<close>

record metrics =
  total_income :: real
  net_income :: real
  manual_deductions_total :: real
  est_tax :: real
  fixed_total :: real
  essential_total :: real
  nonessential_total :: real
  expenses_total :: real
  saving_total :: real
  investing_total :: real
  investing_cashflow :: real
  investing_display :: real
  total_monthly_debt_payments :: real
  total_outflow :: real
  remaining :: real
  has_debt :: bool
  total_assets :: real
  total_liabilities :: real
  net_worth :: real
  employee_retirement :: real
  company_match :: real
  total_retirement_contrib :: real
  investing_rate_of_gross :: "real option"
  investing_rate_of_net :: "real option"
  debt_minimums :: real
  emergency_minimum_monthly :: real
  needs_pct :: "real option"
  wants_pct :: "real option"
  save_invest_pct :: "real option"
  unallocated_pct :: "real option"
  total_debt_balance :: real
  debt_weighted_apr :: "real option"
  debt_payoff_rows :: "payoff_row list"
  debt_has_non_amortizing :: bool
  debt_overall_months :: "int option"
  debt_overall_interest :: "real option"
  debt_overall_payoff_date :: "payoff_date option"
  debt_burden_pct :: "real option"

text \<open>The overall payoff estimate of all debts combined: the three values
  \<^verbatim>\<open>overall_months\<close>, \<^verbatim>\<open>overall_interest\<close>, \<^verbatim>\<open>overall_payoff_date\<close>, all \<open>None\<close>
  unless the guard holds and the combined estimate is \<^verbatim>\<open>paid_off\<close>.\<close>

definition overall_estimate ::
  "bool \<Rightarrow> real \<Rightarrow> real \<Rightarrow> real option \<Rightarrow> int option \<times> real option \<times> payoff_date option" where
  "overall_estimate has_non_amortizing debt_balance debt_payments weighted_apr =
     (if \<not> has_non_amortizing \<and> debt_balance > 0 \<and> debt_payments > 0 \<and> weighted_apr \<noteq> None
      then
        let overall_est = estimate_debt_payoff debt_balance (the weighted_apr) debt_payments 600
        in if status overall_est = paid_off then
             (months overall_est, total_interest overall_est,
              (case months overall_est of
                 None \<Rightarrow> None
               | Some k \<Rightarrow> Some (Today_plus_months k)))
           else (None, None, None)
      else (None, None, None))"

definition compute_metrics :: "session_state \<Rightarrow> metrics" where
  "compute_metrics st =
     (let income_df = pf_income_df st;
          fixed_df = pf_fixed_df st;
          essential_df = pf_essential_df st;
          nonessential_df = pf_nonessential_df st;
          saving_df = pf_saving_df st;
          investing_df = pf_investing_df st;
          debt_df = pf_debt_df st;
          assets_df = pf_assets_df st;
          liabilities_df = pf_liabilities_df st;
          total_income = sum_df income_df Monthly_Amount;
          manual_taxes = get_float (pf_manual_taxes st);
          manual_retirement = get_float (pf_manual_retirement st);
          manual_benefits = get_float (pf_manual_benefits st);
          manual_other_ssi = get_float (pf_manual_other_ssi st);
          employer_match = get_float (pf_manual_match st);
          manual_deductions_total =
            manual_taxes + manual_retirement + manual_benefits + manual_other_ssi;
          use_breakdown = get_bool (pf_use_paycheck_breakdown st);
          net_income =
            (if use_breakdown then total_income - manual_deductions_total else total_income);
          est_tax = 0;
          fixed_total = sum_df fixed_df Monthly_Amount;
          essential_total = sum_df essential_df Monthly_Amount;
          nonessential_total = sum_df nonessential_df Monthly_Amount;
          expenses_total = fixed_total + essential_total + nonessential_total;
          saving_total = sum_df saving_df Monthly_Amount;
          investing_total = sum_df investing_df Monthly_Amount;
          investing_cashflow = investing_total;
          investing_display = investing_total + manual_retirement + employer_match;
          total_monthly_debt_payments = sum_df debt_df Monthly_Payment;
          total_saving_and_investing_cashflow = saving_total + investing_cashflow;
          total_outflow =
            expenses_total + total_saving_and_investing_cashflow + total_monthly_debt_payments;
          remaining = net_income - total_outflow;
          has_debt = (total_monthly_debt_payments > 0);
          total_assets = sum_df assets_df Value;
          total_liabilities = sum_df liabilities_df Value;
          net_worth = total_assets - total_liabilities;
          employee_retirement = get_float (pf_manual_retirement st);
          company_match = get_float (pf_manual_match st);
          total_retirement_contrib = employee_retirement + company_match;
          investing_rate_of_gross =
            (if total_income > 0 then Some (investing_display / total_income * 100) else None);
          investing_rate_of_net =
            (if net_income > 0 then Some (investing_display / net_income * 100) else None);
          debt_minimums = total_monthly_debt_payments;
          emergency_minimum_monthly = fixed_total + essential_total + debt_minimums;
          needs_total = emergency_minimum_monthly;
          wants_total = nonessential_total;
          save_invest_total = saving_total + investing_cashflow;
          needs_pct = (if net_income > 0 then Some (needs_total / net_income * 100) else None);
          wants_pct = (if net_income > 0 then Some (wants_total / net_income * 100) else None);
          save_invest_pct =
            (if net_income > 0 then Some (save_invest_total / net_income * 100) else None);
          unallocated_pct =
            (if net_income > 0 then
               Some (max 0 (100 - (needs_total / net_income * 100
                                   + wants_total / net_income * 100
                                   + save_invest_total / net_income * 100)))
             else None);
          total_debt_balance = sum_df debt_df Balance;
          weighted_apr =
            (if total_debt_balance > 0 then
               let num = weighted_num debt_df 0
               in if total_debt_balance > 0 then Some (num / total_debt_balance) else None
             else None);
          loop_result = payoff_loop debt_df ([], False);
          payoff_rows = fst loop_result;
          has_non_amortizing = snd loop_result;
          overall =
            overall_estimate has_non_amortizing total_debt_balance
              total_monthly_debt_payments weighted_apr;
          debt_burden_pct =
            (if net_income > 0 \<and> total_monthly_debt_payments > 0 then
               Some (total_monthly_debt_payments / net_income * 100)
             else None)
      in \<lparr>total_income = total_income,
          net_income = net_income,
          manual_deductions_total = manual_deductions_total,
          est_tax = est_tax,
          fixed_total = fixed_total,
          essential_total = essential_total,
          nonessential_total = nonessential_total,
          expenses_total = expenses_total,
          saving_total = saving_total,
          investing_total = investing_total,
          investing_cashflow = investing_cashflow,
          investing_display = investing_display,
          total_monthly_debt_payments = total_monthly_debt_payments,
          total_outflow = total_outflow,
          remaining = remaining,
          has_debt = has_debt,
          total_assets = total_assets,
          total_liabilities = total_liabilities,
          net_worth = net_worth,
          employee_retirement = employee_retirement,
          company_match = company_match,
          total_retirement_contrib = total_retirement_contrib,
          investing_rate_of_gross = investing_rate_of_gross,
          investing_rate_of_net = investing_rate_of_net,
          debt_minimums = debt_minimums,
          emergency_minimum_monthly = emergency_minimum_monthly,
          needs_pct = needs_pct,
          wants_pct = wants_pct,
          save_invest_pct = save_invest_pct,
          unallocated_pct = unallocated_pct,
          total_debt_balance = total_debt_balance,
          debt_weighted_apr = weighted_apr,
          debt_payoff_rows = payoff_rows,
          debt_has_non_amortizing = has_non_amortizing,
          debt_overall_months = fst overall,
          debt_overall_interest = fst (snd overall),
          debt_overall_payoff_date = snd (snd overall),
          debt_burden_pct = debt_burden_pct\<rparr>)"

text \<open>A session with empty tables and no manual entries, the starting point of the
  concrete sessions below.\<close>

definition empty_state :: session_state where
  "empty_state =
     \<lparr>pf_income_df = [], pf_fixed_df = [], pf_essential_df = [], pf_nonessential_df = [],
      pf_saving_df = [], pf_investing_df = [], pf_debt_df = [], pf_assets_df = [],
      pf_liabilities_df = [], pf_manual_taxes = None, pf_manual_retirement = None,
      pf_manual_benefits = None, pf_manual_other_ssi = None, pf_manual_match = None,
      pf_use_paycheck_breakdown = None\<rparr>"

section \<open>The amortization loop over the reals\<close>

text \<open>The loop equations are unfolded one iteration at a time.\<close>

declare amortize.simps [simp del]










section \<open>Binary64: evaluation and the loop\<close>

text \<open>The recursions are unfolded one step at a time.\<close>

declare pow2_ge1.simps [simp del] pow2_lt1.simps [simp del]
declare amortize_f64.simps [simp del] amortize_trace_f64.simps [simp del]

lemma pow2_ge1_step: "2 \<le> x \<Longrightarrow> pow2_ge1 x = 2 * pow2_ge1 (x / 2)"
  by (subst pow2_ge1.simps) simp

lemma pow2_ge1_stop: "x < 2 \<Longrightarrow> pow2_ge1 x = 1"
  by (subst pow2_ge1.simps) simp

lemma pow2_lt1_step: "0 < x \<Longrightarrow> x < 1 \<Longrightarrow> pow2_lt1 x = pow2_lt1 (2 * x) / 2"
  by (subst pow2_lt1.simps) simp

lemma pow2_lt1_stop: "1 \<le> x \<Longrightarrow> pow2_lt1 x = 1"
  by (subst pow2_lt1.simps) simp

text \<open>Evaluating a rounding at a concrete number unfolds these.\<close>

lemmas round64_eval = pow2_ge1_step pow2_ge1_stop pow2_lt1_step pow2_lt1_stop pow2_floor_def
  ulp_def round_half_even_def round_mag_def round64_def Let_def

lemma round64_0: "round64 0 = Finite 0"
  by (simp add: round64_eval)

lemma flt_not_fle: "flt a b \<Longrightarrow> \<not> fle b a"
  by (cases a; cases b) auto

lemma fle_zero_pymax: "fle apr (Finite 0) \<Longrightarrow> pymax apr (Finite 0) = Finite 0"
  by (cases apr) (auto simp: pymax_def)

lemma zero_rate: "fdiv (fdiv (Finite 0) (Finite 100)) (Finite 12) = Finite 0"
  by (simp add: round64_0)

lemma amortize_f64_continue:
  "flt (Finite 0) b \<Longrightarrow> m < mm \<Longrightarrow> \<not> fle (fsub p (fmul b r)) (Finite 0) \<Longrightarrow>
     amortize_f64 r p mm (b, ti, m) =
       amortize_f64 r p mm (fsub b (fsub p (fmul b r)), fadd ti (fmul b r), m + 1)"
  by (subst amortize_f64.simps) (simp add: Let_def)


lemma amortize_f64_exit:
  "\<not> (flt (Finite 0) b \<and> m < mm) \<Longrightarrow> amortize_f64 r p mm (b, ti, m) = Inr (b, ti, m)"
  by (subst amortize_f64.simps) auto

lemma amortize_f64_stuck:
  "flt (Finite 0) b \<Longrightarrow> \<not> fle (fsub p (fmul b r)) (Finite 0) \<Longrightarrow>
   fsub b (fsub p (fmul b r)) = b \<Longrightarrow> m \<le> mm \<Longrightarrow>
     \<exists>ti'. amortize_f64 r p mm (b, ti, m) = Inr (b, ti', mm)"
proof (induction k \<equiv> "nat (mm - m)" arbitrary: ti m)
  case 0
  then have "m = mm" by simp
  then show ?case by (simp add: amortize_f64_exit)
next
  case (Suc k)
  then have lt: "m < mm" by linarith
  with Suc.prems have
    "amortize_f64 r p mm (b, ti, m) = amortize_f64 r p mm (b, fadd ti (fmul b r), m + 1)"
    by (simp add: amortize_f64_continue)
  moreover from Suc.hyps(2) lt have "k = nat (mm - (m + 1))" by linarith
  then have "\<exists>ti'. amortize_f64 r p mm (b, fadd ti (fmul b r), m + 1) = Inr (b, ti', mm)"
    using Suc.hyps(1) [of "m + 1" "fadd ti (fmul b r)"] Suc.prems lt by simp
  ultimately show ?case by simp
qed

lemma status_too_long_apr:
  "\<not> fle (fdiv (fdiv (pymax apr (Finite 0)) (Finite 100)) (Finite 12)) (Finite 0) \<Longrightarrow>
     flt (Finite 0) apr \<or> apr = NaN"
proof (rule ccontr)
  assume r: "\<not> fle (fdiv (fdiv (pymax apr (Finite 0)) (Finite 100)) (Finite 12)) (Finite 0)"
  assume "\<not> (flt (Finite 0) apr \<or> apr = NaN)"
  then have "fle apr (Finite 0)" by (cases apr) auto
  then have "pymax apr (Finite 0) = Finite 0" by (rule fle_zero_pymax)
  with r show False by (simp add: round64_0)
qed

text \<open>At balance 1200, 15 percent and payment 15 the monthly interest is computed as
  14.999999999999998, the principal is \<open>2^-49\<close>, and subtracting it leaves 1200: the
  loop runs its 600 iterations without moving the balance.\<close>

lemma estimate_f64_1200_15_15:
  "\<exists>ti. estimate_debt_payoff_f64 (Finite 1200) (Finite 15) (Finite 15) 600 =
      Inr \<lparr>status = too_long, months = None, total_interest = Some ti,
           monthly_interest = Finite (8444249301319679 / 562949953421312),
           min_payment_to_amortize =
             fadd (Finite (8444249301319679 / 562949953421312)) (Finite 1),
           reason = Some (Not_paid_off_within 600)\<rparr>"
proof -
  have rate: "fdiv (fdiv (pymax (Finite 15) (Finite 0)) (Finite 100)) (Finite 12) =
      Finite (7205759403792793 / 576460752303423488)"
    by (simp add: pymax_def round64_eval)
  have mi: "fmul (Finite 1200) (Finite (7205759403792793 / 576460752303423488)) =
      Finite (8444249301319679 / 562949953421312)"
    by (simp add: round64_eval)
  have pr: "fsub (Finite 15) (Finite (8444249301319679 / 562949953421312)) =
      Finite (1 / 562949953421312)"
    by (simp add: fsub_def round64_eval)
  have same: "fsub (Finite 1200) (Finite (1 / 562949953421312)) = Finite 1200"
    by (simp add: fsub_def round64_eval)
  obtain ti where run: "amortize_f64 (Finite (7205759403792793 / 576460752303423488)) (Finite 15)
      600 (Finite 1200, Finite 0, 0) = Inr (Finite 1200, ti, 600)"
    using amortize_f64_stuck [of "Finite 1200" "Finite 15"
        "Finite (7205759403792793 / 576460752303423488)" 0 600 "Finite 0"]
    unfolding mi pr same by auto
  have "estimate_debt_payoff_f64 (Finite 1200) (Finite 15) (Finite 15) 600 =
      Inr \<lparr>status = too_long, months = None, total_interest = Some ti,
           monthly_interest = Finite (8444249301319679 / 562949953421312),
           min_payment_to_amortize =
             fadd (Finite (8444249301319679 / 562949953421312)) (Finite 1),
           reason = Some (Not_paid_off_within 600)\<rparr>"
    unfolding estimate_debt_payoff_f64_def Let_def rate
    by (simp del: fadd.simps fmul.simps add: mi run)
  then show ?thesis by blast
qed

text \<open>A power of two from \<open>2^1024\<close> on rounds to infinity.\<close>

lemma rhe_of_int: "round_half_even (of_int n) = n"
  by (simp add: round_half_even_def)

lemma pow2_ge1_power: "pow2_ge1 (2 ^ n) = 2 ^ n"
proof (induction n)
  case 0
  then show ?case by (simp add: pow2_ge1_stop)
next
  case (Suc n)
  have "(2::real) \<le> 2 ^ Suc n" by simp
  then have "pow2_ge1 (2 ^ Suc n) = 2 * pow2_ge1 (2 ^ Suc n / 2)" by (rule pow2_ge1_step)
  with Suc show ?case by simp
qed

lemma round64_power_overflow:
  assumes "1024 \<le> n"
  shows "round64 (2 ^ n) = PInf"
proof -
  have big: "(2::real) ^ 1024 \<le> 2 ^ n"
    by (rule power_increasing) (use assms in simp_all)
  have "(1::real) / 2 ^ 1022 \<le> 1" by simp
  also have "(1::real) \<le> 2 ^ n" by simp
  finally have "\<not> (2::real) ^ n < 1 / 2 ^ 1022" by simp
  then have u: "ulp (2 ^ n) = 2 ^ n / 2 ^ 52"
    unfolding ulp_def pow2_floor_def by (simp add: pow2_ge1_power)
  have "(2::real) ^ n / (2 ^ n / 2 ^ 52) = of_int (2 ^ 52)" by simp
  then have "round_half_even (2 ^ n / ulp (2 ^ n)) = 2 ^ 52"
    unfolding u by (simp only: rhe_of_int)
  then have "round_mag (2 ^ n) = 2 ^ n"
    unfolding round_mag_def u by simp
  with big show ?thesis unfolding round64_def by simp
qed

lemma estimate_f64_no_interest:
  "flt (Finite 0) bal \<Longrightarrow> flt (Finite 0) pay \<Longrightarrow> fle apr (Finite 0) \<Longrightarrow>
     estimate_debt_payoff_f64 bal apr pay mm =
       (case pyceil (fdiv bal pay) of
          Inl e \<Rightarrow> Inl e
        | Inr k \<Rightarrow>
            Inr \<lparr>status = paid_off, months = Some k, total_interest = Some (Finite 0),
                 monthly_interest = Finite 0, min_payment_to_amortize = Finite 0,
                 reason = None\<rparr>)"
  by (simp add: estimate_debt_payoff_f64_def Let_def fle_zero_pymax round64_0 flt_not_fle)

lemma fdiv_overflow_quarter: "fdiv (Finite (2 ^ 1023)) (Finite (1 / 4)) = PInf"
proof -
  have e: "(2::real) ^ 1023 / (1 / 4) = 2 ^ 1025" by simp
  have "fdiv (Finite (2 ^ 1023)) (Finite (1 / 4)) = round64 (2 ^ 1023 / (1 / 4))" by simp
  also have "\<dots> = round64 (2 ^ 1025)" by (simp only: e)
  also have "\<dots> = PInf" by (rule round64_power_overflow) simp
  finally show ?thesis .
qed

lemma fdiv_overflow_eighth: "fdiv (Finite (2 ^ 1023)) (Finite (1 / 8)) = PInf"
proof -
  have e: "(2::real) ^ 1023 / (1 / 8) = 2 ^ 1026" by simp
  have "fdiv (Finite (2 ^ 1023)) (Finite (1 / 8)) = round64 (2 ^ 1023 / (1 / 8))" by simp
  also have "\<dots> = round64 (2 ^ 1026)" by (simp only: e)
  also have "\<dots> = PInf" by (rule round64_power_overflow) simp
  finally show ?thesis .
qed

section \<open>Binary64: rounding is monotone and idempotent\<close>




























lemma round_mag_0: "round_mag 0 = 0"
  by (simp add: round_mag_def rhe_of_int [of 0, simplified])



















section \<open>Claims about the debt payoff estimator\<close>







text \<open>
  C3 (as amended). For every balance \<open>> 0\<close> and payment \<open>> 0\<close> with a computed
  monthly rate \<open>> 0\<close> and payment \<open>\<le>\<close> the monthly interest as the code computes it
  in binary64 at the original balance, \<open>balance * (max(apr, 0) / 100 / 12)\<close> with
  each operation rounded, the result has status \<open>non_amortizing\<close>, \<open>months\<close> and
  \<open>total_interest\<close> null, \<open>monthly_interest\<close> that computed interest and
  \<open>min_payment_to_amortize\<close> that interest plus one (rounded); balance 5000 at 24
  percent with payment 90 gives monthly interest 100.0 and minimum payment 101.0.
\<close>

theorem non_amortizing_result:
  "(flt (Finite 0) bal \<and> flt (Finite 0) pay \<and>
    flt (Finite 0) (fdiv (fdiv (pymax apr (Finite 0)) (Finite 100)) (Finite 12)) \<and>
    fle pay (fmul bal (fdiv (fdiv (pymax apr (Finite 0)) (Finite 100)) (Finite 12))) \<longrightarrow>
     estimate_debt_payoff_f64 bal apr pay mm =
       Inr \<lparr>status = non_amortizing, months = None, total_interest = None,
            monthly_interest = fmul bal (fdiv (fdiv (pymax apr (Finite 0)) (Finite 100)) (Finite 12)),
            min_payment_to_amortize =
              fadd (fmul bal (fdiv (fdiv (pymax apr (Finite 0)) (Finite 100)) (Finite 12))) (Finite 1),
            reason = Some Payment_le_monthly_interest\<rparr>) \<and>
   estimate_debt_payoff_f64 (Finite 5000) (Finite 24) (Finite 90) 600 =
       Inr \<lparr>status = non_amortizing, months = None, total_interest = None,
            monthly_interest = Finite 100, min_payment_to_amortize = Finite 101,
            reason = Some Payment_le_monthly_interest\<rparr>"
proof -
  have rate: "fdiv (fdiv (pymax (Finite 24) (Finite 0)) (Finite 100)) (Finite 12) =
      Finite (5764607523034235 / 288230376151711744)"
    by (simp add: pymax_def round64_eval)
  have mi: "fmul (Finite 5000) (Finite (5764607523034235 / 288230376151711744)) = Finite 100"
    by (simp add: round64_eval)
  have mp: "fadd (Finite 100) (Finite 1) = Finite 101"
    by (simp add: round64_eval)
  have "estimate_debt_payoff_f64 (Finite 5000) (Finite 24) (Finite 90) 600 =
       Inr \<lparr>status = non_amortizing, months = None, total_interest = None,
            monthly_interest = Finite 100, min_payment_to_amortize = Finite 101,
            reason = Some Payment_le_monthly_interest\<rparr>"
    unfolding estimate_debt_payoff_f64_def Let_def rate
    by (simp del: fadd.simps fmul.simps add: mi mp)
  then show ?thesis
    by (auto simp add: estimate_debt_payoff_f64_def Let_def dest: flt_not_fle)
qed

theorem non_amortizing_result_witness:
  "flt (Finite 0) (Finite 5000) \<and> flt (Finite 0) (Finite 100) \<and>
   fdiv (fdiv (pymax (Finite 24) (Finite 0)) (Finite 100)) (Finite 12) =
     Finite (5764607523034235 / 288230376151711744) \<and>
   fmul (Finite 5000) (Finite (5764607523034235 / 288230376151711744)) = Finite 100 \<and>
   fle (Finite 100) (Finite 100) \<and>
   estimate_debt_payoff_f64 (Finite 5000) (Finite 24) (Finite 100) 600 =
       Inr \<lparr>status = non_amortizing, months = None, total_interest = None,
            monthly_interest = Finite 100, min_payment_to_amortize = Finite 101,
            reason = Some Payment_le_monthly_interest\<rparr>"
proof -
  have rate: "fdiv (fdiv (pymax (Finite 24) (Finite 0)) (Finite 100)) (Finite 12) =
      Finite (5764607523034235 / 288230376151711744)"
    by (simp add: pymax_def round64_eval)
  have mi: "fmul (Finite 5000) (Finite (5764607523034235 / 288230376151711744)) = Finite 100"
    by (simp add: round64_eval)
  have mp: "fadd (Finite 100) (Finite 1) = Finite 101"
    by (simp add: round64_eval)
  note inst = non_amortizing_result [of "Finite 5000" "Finite 100" "Finite 24" 600,
      unfolded rate mi mp]
  from inst rate mi show ?thesis by (simp del: fadd.simps fmul.simps fdiv.simps)
qed

text \<open>With the monthly interest read as the exact product, the claim fails: at
  balance 1200, 15 percent and payment 15 the payment equals the exact interest, but
  the computed interest is 14.999999999999998, below the payment, and the result is
  \<open>too_long\<close>.\<close>

theorem exact_boundary_counterexample:
  "(0::real) < 1200 \<and> (0::real) < 15 \<and> (15::real) \<le> 1200 * (15 / 100 / 12) \<and>
   map_sum id monthly_interest (estimate_debt_payoff_f64 (Finite 1200) (Finite 15) (Finite 15) 600) =
     Inr (Finite (8444249301319679 / 562949953421312)) \<and>
   (8444249301319679 / 562949953421312 :: real) < 15 \<and>
   map_sum id status (estimate_debt_payoff_f64 (Finite 1200) (Finite 15) (Finite 15) 600) =
     Inr too_long"
  using estimate_f64_1200_15_15 by auto

text \<open>
  C6 (as amended). For every balance \<open>> 0\<close> and payment \<open>> 0\<close> with APR \<open>\<le> 0\<close> (a
  negative APR is clamped to 0, not rejected), when the binary64 quotient
  balance / payment is finite the result has status \<open>paid_off\<close>, \<open>months\<close> equal to the
  ceiling of that rounded quotient and \<open>total_interest\<close> 0; when the quotient
  overflows to infinity the call raises \<^verbatim>\<open>OverflowError\<close> (and \<^verbatim>\<open>ValueError\<close> when it
  is NaN). Balance 1200 at 0 percent with payment 100 gives 12 months.
\<close>

theorem no_interest_result:
  "(flt (Finite 0) bal \<and> flt (Finite 0) pay \<and> fle apr (Finite 0) \<longrightarrow>
      (\<forall>q. fdiv bal pay = Finite q \<longrightarrow>
         estimate_debt_payoff_f64 bal apr pay mm =
           Inr \<lparr>status = paid_off, months = Some \<lceil>q\<rceil>, total_interest = Some (Finite 0),
                monthly_interest = Finite 0, min_payment_to_amortize = Finite 0,
                reason = None\<rparr>) \<and>
      (fdiv bal pay = PInf \<longrightarrow> estimate_debt_payoff_f64 bal apr pay mm = Inl OverflowError) \<and>
      (fdiv bal pay = NaN \<longrightarrow> estimate_debt_payoff_f64 bal apr pay mm = Inl ValueError)) \<and>
   estimate_debt_payoff_f64 (Finite 1200) (Finite 0) (Finite 100) 600 =
     Inr \<lparr>status = paid_off, months = Some 12, total_interest = Some (Finite 0),
          monthly_interest = Finite 0, min_payment_to_amortize = Finite 0, reason = None\<rparr>"
proof -
  have q: "fdiv (Finite 1200) (Finite 100) = Finite 12"
    by (simp add: round64_eval)
  have "estimate_debt_payoff_f64 (Finite 1200) (Finite 0) (Finite 100) 600 =
     Inr \<lparr>status = paid_off, months = Some 12, total_interest = Some (Finite 0),
          monthly_interest = Finite 0, min_payment_to_amortize = Finite 0, reason = None\<rparr>"
    using estimate_f64_no_interest [of "Finite 1200" "Finite 100" "Finite 0" 600]
    unfolding q by simp
  then show ?thesis by (simp add: estimate_f64_no_interest)
qed

theorem no_interest_result_witness:
  "flt (Finite 0) (Finite 1000) \<and> flt (Finite 0) (Finite 3) \<and> fle (Finite (- 5)) (Finite 0) \<and>
   fdiv (Finite 1000) (Finite 3) = Finite (5864062014805333 / 17592186044416) \<and>
   estimate_debt_payoff_f64 (Finite 1000) (Finite (- 5)) (Finite 3) 600 =
     Inr \<lparr>status = paid_off, months = Some 334, total_interest = Some (Finite 0),
          monthly_interest = Finite 0, min_payment_to_amortize = Finite 0, reason = None\<rparr> \<and>
   flt (Finite 0) (Finite (2 ^ 1023)) \<and> flt (Finite 0) (Finite (1 / 4)) \<and>
   fdiv (Finite (2 ^ 1023)) (Finite (1 / 4)) = PInf \<and>
   estimate_debt_payoff_f64 (Finite (2 ^ 1023)) (Finite (- 5)) (Finite (1 / 4)) 600 =
     Inl OverflowError"
proof -
  have q: "fdiv (Finite 1000) (Finite 3) = Finite (5864062014805333 / 17592186044416)"
    by (simp add: round64_eval)
  have c: "\<lceil>5864062014805333 / 17592186044416 :: real\<rceil> = 334" by simp
  have h: "flt (Finite 0) (Finite 1000) \<and> flt (Finite 0) (Finite 3) \<and>
      fle (Finite (- 5)) (Finite 0)" by simp
  have g: "flt (Finite 0) (Finite (2 ^ 1023)) \<and> flt (Finite 0) (Finite (1 / 4)) \<and>
      fle (Finite (- 5)) (Finite 0)" by simp
  from no_interest_result [of "Finite 1000" "Finite 3" "Finite (- 5)" 600,
      THEN conjunct1, rule_format, OF h, THEN conjunct1, rule_format, OF q]
  have one: "estimate_debt_payoff_f64 (Finite 1000) (Finite (- 5)) (Finite 3) 600 =
     Inr \<lparr>status = paid_off, months = Some 334, total_interest = Some (Finite 0),
          monthly_interest = Finite 0, min_payment_to_amortize = Finite 0, reason = None\<rparr>"
    unfolding c .
  from no_interest_result [of "Finite (2 ^ 1023)" "Finite (1 / 4)" "Finite (- 5)" 600,
      THEN conjunct1, rule_format, OF g, THEN conjunct2, THEN conjunct1, rule_format,
      OF fdiv_overflow_quarter]
  have two: "estimate_debt_payoff_f64 (Finite (2 ^ 1023)) (Finite (- 5)) (Finite (1 / 4)) 600 =
     Inl OverflowError" .
  from h g q one two fdiv_overflow_quarter show ?thesis by blast
qed

text \<open>The claim as stated fails in two ways. A balance of \<open>2^1023\<close> with payment 0.25
  raises \<^verbatim>\<open>OverflowError\<close> and returns nothing. And the ceiling is that of the rounded
  quotient, not of the exact one: for the binary64 numbers nearest 30.03 and 10.01
  the exact quotient is above 3, with ceiling 4, the rounded quotient is 3.0 and
  \<open>months\<close> is 3.\<close>

theorem quotient_ceiling_counterexample:
  "estimate_debt_payoff_f64 (Finite (2 ^ 1023)) (Finite 0) (Finite (1 / 4)) 600 =
     Inl OverflowError \<and>
   round64 (3003 / 100) = Finite (1056586693827625 / 35184372088832) \<and>
   round64 (1001 / 100) = Finite (5635129033747333 / 562949953421312) \<and>
   \<lceil>(1056586693827625 / 35184372088832) / (5635129033747333 / 562949953421312) :: real\<rceil> = 4 \<and>
   map_sum id months
     (estimate_debt_payoff_f64 (Finite (1056586693827625 / 35184372088832)) (Finite 0)
        (Finite (5635129033747333 / 562949953421312)) 600) = Inr (Some 3)"
proof -
  have g: "flt (Finite 0) (Finite (2 ^ 1023))" "flt (Finite 0) (Finite (1 / 4))"
    "fle (Finite 0) (Finite 0)" by simp_all
  have over: "estimate_debt_payoff_f64 (Finite (2 ^ 1023)) (Finite 0) (Finite (1 / 4)) 600 =
     Inl OverflowError"
    unfolding estimate_f64_no_interest [OF g] fdiv_overflow_quarter by simp
  have a: "round64 (3003 / 100) = Finite (1056586693827625 / 35184372088832)"
    by (simp add: round64_eval)
  have b: "round64 (1001 / 100) = Finite (5635129033747333 / 562949953421312)"
    by (simp add: round64_eval)
  have c: "\<lceil>(1056586693827625 / 35184372088832) / (5635129033747333 / 562949953421312) :: real\<rceil> = 4"
    by simp
  have q: "fdiv (Finite (1056586693827625 / 35184372088832))
      (Finite (5635129033747333 / 562949953421312)) = Finite 3"
    by (simp add: round64_eval)
  have h: "flt (Finite 0) (Finite (1056586693827625 / 35184372088832))"
    "flt (Finite 0) (Finite (5635129033747333 / 562949953421312))"
    "fle (Finite 0) (Finite 0)" by simp_all
  have three: "map_sum id months
     (estimate_debt_payoff_f64 (Finite (1056586693827625 / 35184372088832)) (Finite 0)
        (Finite (5635129033747333 / 562949953421312)) 600) = Inr (Some 3)"
    unfolding estimate_f64_no_interest [OF h] q by simp
  from over a b c three show ?thesis by blast
qed

text \<open>
  C10 (as amended). For every balance \<open>> 0\<close> and payment \<open>> 0\<close> with APR \<open>\<le> 0\<close>, when
  the binary64 quotient balance / payment is finite the result is \<open>paid_off\<close> with
  \<open>months\<close> the ceiling of that quotient whatever \<open>max_months\<close> is, so also when that
  number of months exceeds the cap. Status \<open>too_long\<close> is produced only when the APR
  is \<open>> 0\<close> or is NaN.
\<close>

theorem cap_only_with_interest:
  "(flt (Finite 0) bal \<and> flt (Finite 0) pay \<and> fle apr (Finite 0) \<longrightarrow>
      (\<forall>q. fdiv bal pay = Finite q \<longrightarrow>
         map_sum id status (estimate_debt_payoff_f64 bal apr pay mm) = Inr paid_off \<and>
         map_sum id months (estimate_debt_payoff_f64 bal apr pay mm) = Inr (Some \<lceil>q\<rceil>))) \<and>
   (map_sum id status (estimate_debt_payoff_f64 bal apr pay mm) = Inr too_long \<longrightarrow>
      flt (Finite 0) apr \<or> apr = NaN)"
proof -
  have "flt (Finite 0) apr \<or> apr = NaN"
    if "map_sum id status (estimate_debt_payoff_f64 bal apr pay mm) = Inr too_long"
  proof (rule status_too_long_apr, rule notI)
    assume "fle (fdiv (fdiv (pymax apr (Finite 0)) (Finite 100)) (Finite 12)) (Finite 0)"
    with that show False
      by (auto simp add: estimate_debt_payoff_f64_def Let_def
          split: if_splits sum.splits)
  qed
  then show ?thesis by (simp add: estimate_f64_no_interest)
qed

theorem cap_only_with_interest_witness:
  "flt (Finite 0) (Finite 1000) \<and> flt (Finite 0) (Finite 1) \<and> fle (Finite 0) (Finite 0) \<and>
   fdiv (Finite 1000) (Finite 1) = Finite 1000 \<and>
   map_sum id status (estimate_debt_payoff_f64 (Finite 1000) (Finite 0) (Finite 1) 600) =
     Inr paid_off \<and>
   map_sum id months (estimate_debt_payoff_f64 (Finite 1000) (Finite 0) (Finite 1) 600) =
     Inr (Some 1000) \<and> (600::int) < 1000 \<and>
   map_sum id status (estimate_debt_payoff_f64 (Finite 1200) (Finite 15) (Finite 15) 600) =
     Inr too_long \<and>
   flt (Finite 0) (Finite 15)"
proof -
  have q: "fdiv (Finite 1000) (Finite 1) = Finite 1000"
    by (simp add: round64_eval)
  have h: "flt (Finite 0) (Finite 1000) \<and> flt (Finite 0) (Finite 1) \<and>
      fle (Finite 0) (Finite 0)" by simp
  from cap_only_with_interest [of "Finite 1000" "Finite 1" "Finite 0" 600,
      THEN conjunct1, rule_format, OF h q]
  have one: "map_sum id status (estimate_debt_payoff_f64 (Finite 1000) (Finite 0) (Finite 1) 600) =
     Inr paid_off \<and>
   map_sum id months (estimate_debt_payoff_f64 (Finite 1000) (Finite 0) (Finite 1) 600) =
     Inr (Some 1000)" by simp
  from estimate_f64_1200_15_15
  have long: "map_sum id status
      (estimate_debt_payoff_f64 (Finite 1200) (Finite 15) (Finite 15) 600) = Inr too_long"
    by auto
  from cap_only_with_interest [of "Finite 1200" "Finite 15" "Finite 15" 600,
      THEN conjunct2, rule_format, OF long]
  have "flt (Finite 0) (Finite 15)" by simp
  with h q one long show ?thesis by simp
qed

text \<open>The claim as stated, with \<open>paid_off\<close> for every such input, fails where the
  quotient overflows: a balance of \<open>2^1023\<close> at -1 percent with payment 0.125 raises
  \<^verbatim>\<open>OverflowError\<close>.\<close>

theorem no_interest_overflow_counterexample:
  "flt (Finite 0) (Finite (2 ^ 1023)) \<and> flt (Finite 0) (Finite (1 / 8)) \<and>
   fle (Finite (- 1)) (Finite 0) \<and>
   estimate_debt_payoff_f64 (Finite (2 ^ 1023)) (Finite (- 1)) (Finite (1 / 8)) 600 =
     Inl OverflowError \<and>
   map_sum id status
     (estimate_debt_payoff_f64 (Finite (2 ^ 1023)) (Finite (- 1)) (Finite (1 / 8)) 600) \<noteq>
     Inr paid_off"
proof -
  have g: "flt (Finite 0) (Finite (2 ^ 1023))" "flt (Finite 0) (Finite (1 / 8))"
    "fle (Finite (- 1)) (Finite 0)" by simp_all
  have over: "estimate_debt_payoff_f64 (Finite (2 ^ 1023)) (Finite (- 1)) (Finite (1 / 8)) 600 =
     Inl OverflowError"
    unfolding estimate_f64_no_interest [OF g] fdiv_overflow_eighth by simp
  with g show ?thesis by simp
qed

section \<open>Claims about the aggregate metrics\<close>

text \<open>The fields of the result that the claims are about, each in terms of the
  session state and of the fields computed before it.\<close>

lemma cm_total_income:
  "total_income (compute_metrics st) = sum_df (pf_income_df st) Monthly_Amount"
  by (simp add: compute_metrics_def Let_def)

lemma cm_manual_deductions_total:
  "manual_deductions_total (compute_metrics st) =
     get_float (pf_manual_taxes st) + get_float (pf_manual_retirement st) +
     get_float (pf_manual_benefits st) + get_float (pf_manual_other_ssi st)"
  by (simp add: compute_metrics_def Let_def)

lemma cm_net_income:
  "net_income (compute_metrics st) =
     (if get_bool (pf_use_paycheck_breakdown st)
      then total_income (compute_metrics st) - manual_deductions_total (compute_metrics st)
      else total_income (compute_metrics st))"
  by (simp add: compute_metrics_def Let_def)

lemma cm_company_match:
  "company_match (compute_metrics st) = get_float (pf_manual_match st)"
  by (simp add: compute_metrics_def Let_def)

lemma cm_total_monthly_debt_payments:
  "total_monthly_debt_payments (compute_metrics st) = sum_df (pf_debt_df st) Monthly_Payment"
  by (simp add: compute_metrics_def Let_def)

lemma cm_total_debt_balance:
  "total_debt_balance (compute_metrics st) = sum_df (pf_debt_df st) Balance"
  by (simp add: compute_metrics_def Let_def)

lemma cm_debt_burden_pct:
  "debt_burden_pct (compute_metrics st) =
     (if net_income (compute_metrics st) > 0 \<and> total_monthly_debt_payments (compute_metrics st) > 0
      then Some (total_monthly_debt_payments (compute_metrics st) / net_income (compute_metrics st) * 100)
      else None)"
  by (simp add: compute_metrics_def Let_def)

lemma cm_debt_weighted_apr:
  "debt_weighted_apr (compute_metrics st) =
     (if total_debt_balance (compute_metrics st) > 0
      then Some (weighted_num (pf_debt_df st) 0 / total_debt_balance (compute_metrics st))
      else None)"
  by (simp add: compute_metrics_def Let_def)

lemma cm_total_outflow:
  "total_outflow (compute_metrics st) =
     emergency_minimum_monthly (compute_metrics st) + nonessential_total (compute_metrics st) +
     (saving_total (compute_metrics st) + investing_cashflow (compute_metrics st))"
  by (simp add: compute_metrics_def Let_def)

lemma cm_pcts:
  "needs_pct (compute_metrics st) =
     (if net_income (compute_metrics st) > 0
      then Some (emergency_minimum_monthly (compute_metrics st) / net_income (compute_metrics st) * 100)
      else None)"
  "wants_pct (compute_metrics st) =
     (if net_income (compute_metrics st) > 0
      then Some (nonessential_total (compute_metrics st) / net_income (compute_metrics st) * 100)
      else None)"
  "save_invest_pct (compute_metrics st) =
     (if net_income (compute_metrics st) > 0
      then Some ((saving_total (compute_metrics st) + investing_cashflow (compute_metrics st))
                 / net_income (compute_metrics st) * 100)
      else None)"
  "unallocated_pct (compute_metrics st) =
     (if net_income (compute_metrics st) > 0
      then Some (max 0 (100 -
             (emergency_minimum_monthly (compute_metrics st) / net_income (compute_metrics st) * 100
              + nonessential_total (compute_metrics st) / net_income (compute_metrics st) * 100
              + (saving_total (compute_metrics st) + investing_cashflow (compute_metrics st))
                 / net_income (compute_metrics st) * 100)))
      else None)"
  by (simp_all add: compute_metrics_def Let_def)



lemma cm_split_totals:
  "emergency_minimum_monthly (compute_metrics st) =
     sum_df (pf_fixed_df st) Monthly_Amount + sum_df (pf_essential_df st) Monthly_Amount +
     sum_df (pf_debt_df st) Monthly_Payment"
  "nonessential_total (compute_metrics st) = sum_df (pf_nonessential_df st) Monthly_Amount"
  "saving_total (compute_metrics st) = sum_df (pf_saving_df st) Monthly_Amount"
  "investing_cashflow (compute_metrics st) = sum_df (pf_investing_df st) Monthly_Amount"
  by (simp_all add: compute_metrics_def Let_def)

text \<open>The two loops over the debt rows, in closed form.\<close>

lemma weighted_num_sum:
  "weighted_num rows num = num + (\<Sum>row\<leftarrow>rows. Balance row * APR row)"
  by (induction rows arbitrary: num) (simp_all add: Let_def)

lemma sum_list_filter_pos:
  "(\<And>x. x \<in> set xs \<Longrightarrow> 0 \<le> f x) \<Longrightarrow>
     (\<Sum>x\<leftarrow>filter (\<lambda>x. 0 < f x) xs. f x * g x) = (\<Sum>x\<leftarrow>xs. f x * g x :: real)"
proof (induction xs)
  case Nil
  then show ?case by simp
next
  case (Cons x xs)
  then have "0 \<le> f x" by simp
  then have "\<not> 0 < f x \<Longrightarrow> f x = 0" by simp
  with Cons show ?case by auto
qed




text \<open>
  C8. Net income is gross income minus \<open>manual_deductions_total\<close> when the paycheck
  breakdown flag is true, and gross income unchanged otherwise;
  \<open>manual_deductions_total\<close> is taxes + employee retirement + benefits + other/SSI.
  The company match is reported (\<open>company_match\<close>) but changing it changes neither the
  deductions nor the net income.
\<close>

theorem net_income_breakdown:
  "net_income (compute_metrics st) =
     (if get_bool (pf_use_paycheck_breakdown st)
      then total_income (compute_metrics st) - manual_deductions_total (compute_metrics st)
      else total_income (compute_metrics st)) \<and>
   total_income (compute_metrics st) = sum_df (pf_income_df st) Monthly_Amount \<and>
   manual_deductions_total (compute_metrics st) =
     get_float (pf_manual_taxes st) + get_float (pf_manual_retirement st) +
     get_float (pf_manual_benefits st) + get_float (pf_manual_other_ssi st) \<and>
   company_match (compute_metrics st) = get_float (pf_manual_match st) \<and>
   net_income (compute_metrics (st\<lparr>pf_manual_match := x\<rparr>)) = net_income (compute_metrics st) \<and>
   manual_deductions_total (compute_metrics (st\<lparr>pf_manual_match := x\<rparr>)) =
     manual_deductions_total (compute_metrics st)"
  by (simp add: cm_net_income cm_total_income cm_manual_deductions_total cm_company_match)

theorem net_income_breakdown_witness:
  "net_income (compute_metrics (empty_state\<lparr>pf_income_df := [\<lparr>Name = ''Pay'', Monthly_Amount = 5000\<rparr>],
      pf_manual_taxes := Some 900, pf_manual_retirement := Some 300, pf_manual_benefits := Some 200,
      pf_manual_other_ssi := Some 100, pf_manual_match := Some 150,
      pf_use_paycheck_breakdown := Some True\<rparr>)) = 3500 \<and>
   net_income (compute_metrics (empty_state\<lparr>pf_income_df := [\<lparr>Name = ''Pay'', Monthly_Amount = 5000\<rparr>],
      pf_manual_taxes := Some 900, pf_manual_retirement := Some 300, pf_manual_benefits := Some 200,
      pf_manual_other_ssi := Some 100, pf_manual_match := Some 150,
      pf_use_paycheck_breakdown := Some False\<rparr>)) = 5000"
  using net_income_breakdown [of "empty_state\<lparr>pf_income_df := [\<lparr>Name = ''Pay'', Monthly_Amount = 5000\<rparr>],
      pf_manual_taxes := Some 900, pf_manual_retirement := Some 300, pf_manual_benefits := Some 200,
      pf_manual_other_ssi := Some 100, pf_manual_match := Some 150,
      pf_use_paycheck_breakdown := Some True\<rparr>"]
    net_income_breakdown [of "empty_state\<lparr>pf_income_df := [\<lparr>Name = ''Pay'', Monthly_Amount = 5000\<rparr>],
      pf_manual_taxes := Some 900, pf_manual_retirement := Some 300, pf_manual_benefits := Some 200,
      pf_manual_other_ssi := Some 100, pf_manual_match := Some 150,
      pf_use_paycheck_breakdown := Some False\<rparr>"]
  by (simp add: empty_state_def sum_df_def get_float_def get_bool_def)

text \<open>
  C9. The debt burden percentage is total monthly debt payments / net income * 100
  exactly when net income \<open>> 0\<close> and the payments are \<open>> 0\<close>, and null in every other
  case; it is never zero, and the divisor is positive whenever the division is made.
\<close>

theorem debt_burden_defined:
  "debt_burden_pct (compute_metrics st) =
     (if 0 < net_income (compute_metrics st) \<and> 0 < total_monthly_debt_payments (compute_metrics st)
      then Some (total_monthly_debt_payments (compute_metrics st) / net_income (compute_metrics st) * 100)
      else None) \<and>
   total_monthly_debt_payments (compute_metrics st) = sum_df (pf_debt_df st) Monthly_Payment \<and>
   debt_burden_pct (compute_metrics st) \<noteq> Some 0"
  by (simp add: cm_debt_burden_pct cm_total_monthly_debt_payments)

theorem debt_burden_defined_witness:
  "debt_burden_pct (compute_metrics (empty_state\<lparr>pf_income_df := [\<lparr>Name = ''Pay'', Monthly_Amount = 4000\<rparr>],
      pf_debt_df := [\<lparr>Debt = ''Card'', Balance = 5000, APR = 24, Monthly_Payment = 500\<rparr>]\<rparr>)) =
     Some (25 / 2) \<and>
   debt_burden_pct (compute_metrics (empty_state\<lparr>
      pf_debt_df := [\<lparr>Debt = ''Card'', Balance = 5000, APR = 24, Monthly_Payment = 500\<rparr>]\<rparr>)) = None \<and>
   debt_burden_pct (compute_metrics (empty_state\<lparr>
      pf_income_df := [\<lparr>Name = ''Pay'', Monthly_Amount = 4000\<rparr>]\<rparr>)) = None"
  using debt_burden_defined [of "empty_state\<lparr>pf_income_df := [\<lparr>Name = ''Pay'', Monthly_Amount = 4000\<rparr>],
      pf_debt_df := [\<lparr>Debt = ''Card'', Balance = 5000, APR = 24, Monthly_Payment = 500\<rparr>]\<rparr>"]
    debt_burden_defined [of "empty_state\<lparr>
      pf_debt_df := [\<lparr>Debt = ''Card'', Balance = 5000, APR = 24, Monthly_Payment = 500\<rparr>]\<rparr>"]
    debt_burden_defined [of "empty_state\<lparr>
      pf_income_df := [\<lparr>Name = ''Pay'', Monthly_Amount = 4000\<rparr>]\<rparr>"]
  by (simp add: empty_state_def sum_df_def get_float_def get_bool_def cm_net_income cm_total_income
      cm_manual_deductions_total)

text \<open>
  C7. When the total debt balance is positive, the weighted APR is the sum of
  balance * APR over the debt rows divided by the sum of the balances. With the
  balances non-negative, as the data model has them, that is the balance-weighted
  mean over the debts with balance \<open>> 0\<close>. It does not depend on the payments, which
  are all the payoff loop adds to the balance and the APR. Debts of 1000 at 10
  percent and 3000 at 20 percent give 17.5.
\<close>

theorem weighted_apr_mean:
  "(0 < total_debt_balance (compute_metrics st) \<longrightarrow>
      debt_weighted_apr (compute_metrics st) =
        Some ((\<Sum>row\<leftarrow>pf_debt_df st. Balance row * APR row) / (\<Sum>row\<leftarrow>pf_debt_df st. Balance row))) \<and>
   (0 < total_debt_balance (compute_metrics st) \<and> (\<forall>row\<in>set (pf_debt_df st). 0 \<le> Balance row) \<longrightarrow>
      debt_weighted_apr (compute_metrics st) =
        Some ((\<Sum>row\<leftarrow>filter (\<lambda>row. 0 < Balance row) (pf_debt_df st). Balance row * APR row) /
              (\<Sum>row\<leftarrow>filter (\<lambda>row. 0 < Balance row) (pf_debt_df st). Balance row))) \<and>
   total_debt_balance (compute_metrics st) = (\<Sum>row\<leftarrow>pf_debt_df st. Balance row) \<and>
   debt_weighted_apr
     (compute_metrics (st\<lparr>pf_debt_df := map (\<lambda>row. row\<lparr>Monthly_Payment := f row\<rparr>) (pf_debt_df st)\<rparr>)) =
     debt_weighted_apr (compute_metrics st)"
proof -
  let ?rows = "pf_debt_df st"
  have tot: "total_debt_balance (compute_metrics st) = (\<Sum>row\<leftarrow>?rows. Balance row)"
    by (simp add: cm_total_debt_balance sum_df_def)
  have all: "0 < total_debt_balance (compute_metrics st) \<longrightarrow>
      debt_weighted_apr (compute_metrics st) =
        Some ((\<Sum>row\<leftarrow>?rows. Balance row * APR row) / (\<Sum>row\<leftarrow>?rows. Balance row))"
    by (simp add: cm_debt_weighted_apr weighted_num_sum tot)
  have pos: "(\<forall>row\<in>set ?rows. 0 \<le> Balance row) \<longrightarrow>
      (\<Sum>row\<leftarrow>filter (\<lambda>row. 0 < Balance row) ?rows. Balance row * APR row) =
        (\<Sum>row\<leftarrow>?rows. Balance row * APR row) \<and>
      (\<Sum>row\<leftarrow>filter (\<lambda>row. 0 < Balance row) ?rows. Balance row) = (\<Sum>row\<leftarrow>?rows. Balance row)"
    using sum_list_filter_pos [of ?rows Balance APR]
      sum_list_filter_pos [of ?rows Balance "\<lambda>_. 1"] by simp
  have indep: "debt_weighted_apr
     (compute_metrics (st\<lparr>pf_debt_df := map (\<lambda>row. row\<lparr>Monthly_Payment := f row\<rparr>) ?rows\<rparr>)) =
     debt_weighted_apr (compute_metrics st)"
    by (simp add: cm_debt_weighted_apr cm_total_debt_balance sum_df_def weighted_num_sum comp_def)
  from tot all pos indep show ?thesis by simp
qed

theorem weighted_apr_mean_witness:
  "0 < total_debt_balance (compute_metrics (empty_state\<lparr>pf_debt_df :=
      [\<lparr>Debt = ''A'', Balance = 1000, APR = 10, Monthly_Payment = 50\<rparr>,
       \<lparr>Debt = ''B'', Balance = 3000, APR = 20, Monthly_Payment = 90\<rparr>]\<rparr>)) \<and>
   debt_weighted_apr (compute_metrics (empty_state\<lparr>pf_debt_df :=
      [\<lparr>Debt = ''A'', Balance = 1000, APR = 10, Monthly_Payment = 50\<rparr>,
       \<lparr>Debt = ''B'', Balance = 3000, APR = 20, Monthly_Payment = 90\<rparr>]\<rparr>)) = Some (35 / 2)"
  using weighted_apr_mean [of "empty_state\<lparr>pf_debt_df :=
      [\<lparr>Debt = ''A'', Balance = 1000, APR = 10, Monthly_Payment = 50\<rparr>,
       \<lparr>Debt = ''B'', Balance = 3000, APR = 20, Monthly_Payment = 90\<rparr>]\<rparr>"]
  by (simp add: empty_state_def)

text \<open>
  C4 (as amended). Whenever net income is \<open>> 0\<close>, the needs, wants and save/invest
  percentages are the component totals divided by net income times 100, and the
  unallocated percentage is \<open>max 0 (100 - (needs + wants + save/invest))\<close>. The three
  percentages sum to at most 100 exactly when the total outflow is within net
  income; then the unallocated percentage makes up the remainder and the four total
  100. When the outflow exceeds net income the unallocated percentage is 0 and the
  four total more than 100.
\<close>

theorem split_percentages:
  assumes "0 < net_income (compute_metrics st)"
  shows "\<exists>n w s u.
     needs_pct (compute_metrics st) = Some n \<and>
     wants_pct (compute_metrics st) = Some w \<and>
     save_invest_pct (compute_metrics st) = Some s \<and>
     unallocated_pct (compute_metrics st) = Some u \<and>
     n = emergency_minimum_monthly (compute_metrics st) / net_income (compute_metrics st) * 100 \<and>
     w = nonessential_total (compute_metrics st) / net_income (compute_metrics st) * 100 \<and>
     s = (saving_total (compute_metrics st) + investing_cashflow (compute_metrics st))
           / net_income (compute_metrics st) * 100 \<and>
     u = max 0 (100 - (n + w + s)) \<and>
     (n + w + s \<le> 100 \<longleftrightarrow> total_outflow (compute_metrics st) \<le> net_income (compute_metrics st)) \<and>
     (total_outflow (compute_metrics st) \<le> net_income (compute_metrics st) \<longrightarrow> n + w + s + u = 100) \<and>
     (net_income (compute_metrics st) < total_outflow (compute_metrics st) \<longrightarrow>
        u = 0 \<and> 100 < n + w + s + u)"
proof -
  define net where "net = net_income (compute_metrics st)"
  define n where "n = emergency_minimum_monthly (compute_metrics st) / net * 100"
  define w where "w = nonessential_total (compute_metrics st) / net * 100"
  define s where "s = (saving_total (compute_metrics st) + investing_cashflow (compute_metrics st))
      / net * 100"
  define u where "u = max 0 (100 - (n + w + s))"
  from assms have net: "0 < net" by (simp add: net_def)
  have "n + w + s = total_outflow (compute_metrics st) / net * 100"
    by (simp add: n_def w_def s_def cm_total_outflow add_divide_distrib distrib_right)
  with net have le: "n + w + s \<le> 100 \<longleftrightarrow> total_outflow (compute_metrics st) \<le> net"
    by (simp add: pos_divide_le_eq)
  have fields: "needs_pct (compute_metrics st) = Some n" "wants_pct (compute_metrics st) = Some w"
    "save_invest_pct (compute_metrics st) = Some s" "unallocated_pct (compute_metrics st) = Some u"
    using assms by (simp_all add: cm_pcts n_def w_def s_def u_def net_def)
  have under: "total_outflow (compute_metrics st) \<le> net \<longrightarrow> n + w + s + u = 100"
    using le unfolding u_def max_def by auto
  have over: "net < total_outflow (compute_metrics st) \<longrightarrow> u = 0 \<and> 100 < n + w + s + u"
    using le unfolding u_def max_def by auto
  from fields le under over u_def show ?thesis
    unfolding net_def [symmetric] n_def [symmetric] w_def [symmetric] s_def [symmetric]
    by blast
qed

theorem split_percentages_witness:
  "needs_pct (compute_metrics (empty_state\<lparr>
      pf_income_df := [\<lparr>Name = ''Pay'', Monthly_Amount = 5000\<rparr>],
      pf_fixed_df := [\<lparr>Name = ''Rent'', Monthly_Amount = 2000\<rparr>],
      pf_nonessential_df := [\<lparr>Name = ''Dining'', Monthly_Amount = 500\<rparr>],
      pf_saving_df := [\<lparr>Name = ''Emergency fund'', Monthly_Amount = 500\<rparr>],
      pf_debt_df := [\<lparr>Debt = ''Card'', Balance = 5000, APR = 24, Monthly_Payment = 500\<rparr>]\<rparr>)) = Some 50 \<and>
   unallocated_pct (compute_metrics (empty_state\<lparr>
      pf_income_df := [\<lparr>Name = ''Pay'', Monthly_Amount = 5000\<rparr>],
      pf_fixed_df := [\<lparr>Name = ''Rent'', Monthly_Amount = 2000\<rparr>],
      pf_nonessential_df := [\<lparr>Name = ''Dining'', Monthly_Amount = 500\<rparr>],
      pf_saving_df := [\<lparr>Name = ''Emergency fund'', Monthly_Amount = 500\<rparr>],
      pf_debt_df := [\<lparr>Debt = ''Card'', Balance = 5000, APR = 24, Monthly_Payment = 500\<rparr>]\<rparr>)) = Some 30 \<and>
   needs_pct (compute_metrics (empty_state\<lparr>
      pf_income_df := [\<lparr>Name = ''Pay'', Monthly_Amount = 1000\<rparr>],
      pf_fixed_df := [\<lparr>Name = ''Rent'', Monthly_Amount = 800\<rparr>],
      pf_nonessential_df := [\<lparr>Name = ''Dining'', Monthly_Amount = 700\<rparr>]\<rparr>)) = Some 80 \<and>
   wants_pct (compute_metrics (empty_state\<lparr>
      pf_income_df := [\<lparr>Name = ''Pay'', Monthly_Amount = 1000\<rparr>],
      pf_fixed_df := [\<lparr>Name = ''Rent'', Monthly_Amount = 800\<rparr>],
      pf_nonessential_df := [\<lparr>Name = ''Dining'', Monthly_Amount = 700\<rparr>]\<rparr>)) = Some 70 \<and>
   unallocated_pct (compute_metrics (empty_state\<lparr>
      pf_income_df := [\<lparr>Name = ''Pay'', Monthly_Amount = 1000\<rparr>],
      pf_fixed_df := [\<lparr>Name = ''Rent'', Monthly_Amount = 800\<rparr>],
      pf_nonessential_df := [\<lparr>Name = ''Dining'', Monthly_Amount = 700\<rparr>]\<rparr>)) = Some 0"
proof -
  let ?st = "empty_state\<lparr>
      pf_income_df := [\<lparr>Name = ''Pay'', Monthly_Amount = 5000\<rparr>],
      pf_fixed_df := [\<lparr>Name = ''Rent'', Monthly_Amount = 2000\<rparr>],
      pf_nonessential_df := [\<lparr>Name = ''Dining'', Monthly_Amount = 500\<rparr>],
      pf_saving_df := [\<lparr>Name = ''Emergency fund'', Monthly_Amount = 500\<rparr>],
      pf_debt_df := [\<lparr>Debt = ''Card'', Balance = 5000, APR = 24, Monthly_Payment = 500\<rparr>]\<rparr>"
  let ?over = "empty_state\<lparr>
      pf_income_df := [\<lparr>Name = ''Pay'', Monthly_Amount = 1000\<rparr>],
      pf_fixed_df := [\<lparr>Name = ''Rent'', Monthly_Amount = 800\<rparr>],
      pf_nonessential_df := [\<lparr>Name = ''Dining'', Monthly_Amount = 700\<rparr>]\<rparr>"
  have net: "net_income (compute_metrics ?st) = 5000" "net_income (compute_metrics ?over) = 1000"
    by (simp_all add: cm_net_income cm_total_income empty_state_def sum_df_def get_bool_def)
  then have pos: "0 < net_income (compute_metrics ?st)" "0 < net_income (compute_metrics ?over)"
    by simp_all
  have tot: "emergency_minimum_monthly (compute_metrics ?st) = 2500"
    "nonessential_total (compute_metrics ?st) = 500"
    "saving_total (compute_metrics ?st) + investing_cashflow (compute_metrics ?st) = 500"
    "emergency_minimum_monthly (compute_metrics ?over) = 800"
    "nonessential_total (compute_metrics ?over) = 700"
    "saving_total (compute_metrics ?over) + investing_cashflow (compute_metrics ?over) = 0"
    by (simp_all add: cm_split_totals empty_state_def sum_df_def)
  from split_percentages [OF pos(1)] split_percentages [OF pos(2)] show ?thesis
    unfolding net tot by auto
qed

text \<open>The claim as stated, that the three percentages sum to at most 100 and the four
  total 100 for any non-negative inputs with net income \<open>> 0\<close>, fails when the outflow
  exceeds the income: income 1000 and fixed expenses 2000 give a needs percentage of
  200 and an unallocated percentage of 0.\<close>

theorem split_over_income_counterexample:
  "0 < net_income (compute_metrics (empty_state\<lparr>
      pf_income_df := [\<lparr>Name = ''Pay'', Monthly_Amount = 1000\<rparr>],
      pf_fixed_df := [\<lparr>Name = ''Rent'', Monthly_Amount = 2000\<rparr>]\<rparr>)) \<and>
   needs_pct (compute_metrics (empty_state\<lparr>
      pf_income_df := [\<lparr>Name = ''Pay'', Monthly_Amount = 1000\<rparr>],
      pf_fixed_df := [\<lparr>Name = ''Rent'', Monthly_Amount = 2000\<rparr>]\<rparr>)) = Some 200 \<and>
   wants_pct (compute_metrics (empty_state\<lparr>
      pf_income_df := [\<lparr>Name = ''Pay'', Monthly_Amount = 1000\<rparr>],
      pf_fixed_df := [\<lparr>Name = ''Rent'', Monthly_Amount = 2000\<rparr>]\<rparr>)) = Some 0 \<and>
   save_invest_pct (compute_metrics (empty_state\<lparr>
      pf_income_df := [\<lparr>Name = ''Pay'', Monthly_Amount = 1000\<rparr>],
      pf_fixed_df := [\<lparr>Name = ''Rent'', Monthly_Amount = 2000\<rparr>]\<rparr>)) = Some 0 \<and>
   unallocated_pct (compute_metrics (empty_state\<lparr>
      pf_income_df := [\<lparr>Name = ''Pay'', Monthly_Amount = 1000\<rparr>],
      pf_fixed_df := [\<lparr>Name = ''Rent'', Monthly_Amount = 2000\<rparr>]\<rparr>)) = Some 0 \<and>
   \<not> (200 + 0 + 0 \<le> (100::real)) \<and> (200 + 0 + 0 + 0 \<noteq> (100::real))"
  by (simp add: cm_pcts cm_split_totals cm_net_income cm_total_income cm_manual_deductions_total
      empty_state_def sum_df_def get_float_def get_bool_def)



end
